theory Spec2Isabelle
  imports Complex_Main
begin

section \<open>The pairing page script: daemon/ui/daemon.js\<close>

text \<open>
  The script has three asynchronous functions, \<open>fetchRequests\<close>, \<open>approve\<close> and
  \<open>dismiss\<close>, and two top-level statements. Each function is one \<open>try\<close> block with a
  \<open>catch\<close> that logs. The model is sequential: a function takes the outcome of each
  \<open>fetch\<close> it awaits and the state of the browser page, and returns the state when its
  promise settles. An exception is a value: \<open>Inl (e, w)\<close> is the exception \<open>e\<close> thrown in
  state \<open>w\<close>, so that what was done before the throw is kept.
\<close>

subsection \<open>Values parsed from JSON\<close>

text \<open>
  The script does two things with a number: it tests it against zero and it puts it into
  a string. \<open>JNum\<close> therefore holds a number as the text the engine prints for it
  (\<open>0\<close> for zero of either sign, \<open>42\<close>, \<open>1.5\<close>, \<open>1e+21\<close>). A string is a list of
  characters; the script only tests strings for emptiness, compares them, upper-cases them
  and puts them into the page. \<open>JObj\<close> lists the members in the order of the text.
\<close>

datatype jsval =
    JUndefined
  | JNull
  | JBool bool
  | JNum string
  | JStr string
  | JArr "jsval list"
  | JObj "(string \<times> jsval) list"

datatype js_error = TypeError | SyntaxError | FetchFailed

definition and_then :: "js_error + 'a \<Rightarrow> ('a \<Rightarrow> js_error + 'b) \<Rightarrow> js_error + 'b" where
  "and_then m f = (case m of Inl e \<Rightarrow> Inl e | Inr x \<Rightarrow> f x)"

text \<open>The text of a length, which is a natural number.\<close>

fun decimal :: "nat \<Rightarrow> string" where
  "decimal n =
     (if n < 10 then [''0123456789'' ! n]
      else decimal (n div 10) @ [''0123456789'' ! (n mod 10)])"

text \<open>ToBoolean, as \<open>||\<close>, \<open>&&\<close> and \<open>!\<close> apply it.\<close>

fun truthy :: "jsval \<Rightarrow> bool" where
  "truthy JUndefined = False"
| "truthy JNull = False"
| "truthy (JBool b) = b"
| "truthy (JNum t) = (t \<noteq> ''0'')"
| "truthy (JStr s) = (s \<noteq> [])"
| "truthy (JArr xs) = True"
| "truthy (JObj kvs) = True"

text \<open>JSON.parse keeps the last of two members with one name.\<close>

definition obj_member :: "(string \<times> jsval) list \<Rightarrow> string \<Rightarrow> jsval" where
  "obj_member kvs name = (case map_of (rev kvs) name of None \<Rightarrow> JUndefined | Some v \<Rightarrow> v)"

text \<open>
  \<open>v.name\<close> for the names the script reads (\<open>requests\<close>, \<open>length\<close>, \<open>client_ip\<close>,
  \<open>request_id\<close>, \<open>status\<close>, \<open>ok\<close>): of these only \<open>length\<close> is a property of arrays and
  strings, and none is inherited from a prototype. Reading a property of \<open>null\<close> or
  \<open>undefined\<close> throws.
\<close>

fun get_prop :: "jsval \<Rightarrow> string \<Rightarrow> js_error + jsval" where
  "get_prop JUndefined name = Inl TypeError"
| "get_prop JNull name = Inl TypeError"
| "get_prop (JBool b) name = Inr JUndefined"
| "get_prop (JNum t) name = Inr JUndefined"
| "get_prop (JStr s) name =
     Inr (if name = ''length'' then JNum (decimal (length s)) else JUndefined)"
| "get_prop (JArr xs) name =
     Inr (if name = ''length'' then JNum (decimal (length xs)) else JUndefined)"
| "get_prop (JObj kvs) name = Inr (obj_member kvs name)"

text \<open>\<open>reqs[0]\<close>.\<close>

fun index0 :: "jsval \<Rightarrow> js_error + jsval" where
  "index0 JUndefined = Inl TypeError"
| "index0 JNull = Inl TypeError"
| "index0 (JBool b) = Inr JUndefined"
| "index0 (JNum t) = Inr JUndefined"
| "index0 (JStr s) = Inr (case s of [] \<Rightarrow> JUndefined | c # _ \<Rightarrow> JStr [c])"
| "index0 (JArr xs) = Inr (case xs of [] \<Rightarrow> JUndefined | x # _ \<Rightarrow> x)"
| "index0 (JObj kvs) = Inr (obj_member kvs ''0'')"

text \<open>\<open>Array.prototype.join\<close> with a comma, over the texts of the elements; the first
  conversion that throws ends it.\<close>

fun join_texts :: "(js_error + string) list \<Rightarrow> js_error + string" where
  "join_texts [] = Inr []"
| "join_texts [t] = t"
| "join_texts (t # ts) =
     and_then t (\<lambda>s. and_then (join_texts ts) (\<lambda>rest. Inr (s @ '','' @ rest)))"

text \<open>
  The string a template literal puts in place of \<open>${v}\<close> (ToString). An array is joined
  with commas, \<open>null\<close> and \<open>undefined\<close> elements giving the empty text. An object parsed
  from JSON prints as \<open>[object Object]\<close>, unless it has a member \<open>toString\<close> of its own:
  that member is not a function, the inherited \<open>valueOf\<close> returns the object, and the
  conversion throws.
\<close>

fun interpolate :: "jsval \<Rightarrow> js_error + string" where
  "interpolate JUndefined = Inr ''undefined''"
| "interpolate JNull = Inr ''null''"
| "interpolate (JBool b) = Inr (if b then ''true'' else ''false'')"
| "interpolate (JNum t) = Inr t"
| "interpolate (JStr s) = Inr s"
| "interpolate (JArr xs) =
     join_texts (map (\<lambda>x. if x = JUndefined \<or> x = JNull then Inr [] else interpolate x) xs)"
| "interpolate (JObj kvs) =
     (if ''toString'' \<in> fst ` set kvs then Inl TypeError else Inr ''[object Object]'')"

subsection \<open>The page\<close>

text \<open>
  The card of a request, by the places the template literal of \<open>fetchRequests\<close> fills
  in: the text of the client line, of the request id line and of the status pill, and the
  values of the \<open>onclick\<close> attributes of the Ignore and the Accept button. \<open>status_row\<close>
  is the text of the element \<open>daemon-status-row\<close>, which the template creates empty.
\<close>

record card =
  client :: string
  shown_id :: string
  status_pill :: string
  ignore_onclick :: string
  accept_onclick :: string
  status_row :: string

text \<open>
  What the script calls and the engine decides: \<open>String.prototype.toUpperCase\<close>, and,
  for a card whose substituted texts break the markup of the template, whether the
  HTML parser still produces an element \<open>daemon-status-row\<close>.
\<close>

record builtins =
  toUpperCase :: "string \<Rightarrow> string"
  row_survives :: "card \<Rightarrow> bool"

text \<open>\<open>v.toUpperCase()\<close>: only a string has the method; on anything else the call
  throws (no property of \<open>undefined\<close>, or a value that is not a function).\<close>

fun call_toUpperCase :: "builtins \<Rightarrow> jsval \<Rightarrow> js_error + string" where
  "call_toUpperCase B (JStr s) = Inr (toUpperCase B s)"
| "call_toUpperCase B v = Inl TypeError"

text \<open>
  What is inside \<open>daemon-content\<close>: what the page came with, the empty state, a card
  (the elements of the template, with the texts and attribute values of the record), or
  the result of parsing a card whose substituted texts break the markup. Of the last the
  model keeps the substituted texts and the text of the status row, if the result has
  one; what else it shows is the HTML parser's.
\<close>

datatype html =
    Static_markup
  | Empty_state
  | Request_card card
  | Other_markup card "string option"

datatype request = GET string | POST string jsval

datatype callback = FetchRequests | WindowClose

datatype timer = Interval callback nat | Timeout callback nat

text \<open>
  \<open>content\<close> is what is inside the element \<open>daemon-content\<close>, \<open>None\<close> when the
  document has no such element. The only element \<open>daemon-status-row\<close> is the one inside a
  card. \<open>console\<close> holds the calls of \<open>console.error\<close>, \<open>sent\<close> the calls of
  \<open>fetch\<close>, \<open>timers\<close> the calls of \<open>setInterval\<close> and \<open>setTimeout\<close>.
\<close>

record world =
  content :: "html option"
  console :: "(string \<times> js_error) list"
  sent :: "request list"
  timers :: "timer list"

text \<open>What a \<open>fetch\<close> comes to: the promise rejects (no connection), or there is a
  response with a status code, whose \<open>json()\<close> gives a value or rejects (\<open>None\<close>).\<close>

datatype fetch_outcome = Rejected | Response nat "jsval option"

definition res_ok :: "nat \<Rightarrow> bool" where
  "res_ok code = (200 \<le> code \<and> code \<le> 299)"

type_synonym result = "(js_error \<times> world) + world"

definition do_fetch :: "request \<Rightarrow> world \<Rightarrow> world" where
  "do_fetch r w = w\<lparr>sent := sent w @ [r]\<rparr>"

subsection \<open>Markup assigned to innerHTML\<close>

text \<open>
  The template is assigned to \<open>innerHTML\<close> with its substitutions as they are, so the
  HTML parser reads them as markup. A substituted text leaves the template around it
  intact, and is itself the text shown, when it is made of printable ASCII characters
  without \<open><\<close> and \<open>&\<close>; inside the double quotes of an attribute, when it is made of
  printable ASCII characters without the double quote and \<open>&\<close>.
\<close>

definition printable :: "char \<Rightarrow> bool" where
  "printable c = (let n = (of_char c :: nat) in 32 \<le> n \<and> n \<le> 126)"

definition text_char :: "char \<Rightarrow> bool" where
  "text_char c = (printable c \<and> c \<noteq> CHR ''<'' \<and> c \<noteq> CHR ''&'')"

definition attr_char :: "char \<Rightarrow> bool" where
  "attr_char c = (printable c \<and> c \<noteq> CHR 0x22 \<and> c \<noteq> CHR ''&'')"

definition markup_intact :: "card \<Rightarrow> bool" where
  "markup_intact c =
     (list_all text_char (client c) \<and> list_all text_char (shown_id c)
      \<and> list_all text_char (status_pill c)
      \<and> list_all attr_char (ignore_onclick c) \<and> list_all attr_char (accept_onclick c))"

text \<open>What the page holds after the template with the substitutions \<open>c\<close> was assigned.\<close>

definition written_card :: "builtins \<Rightarrow> card \<Rightarrow> html" where
  "written_card B c =
     (if markup_intact c then Request_card c
      else Other_markup c (if row_survives B c then Some [] else None))"

text \<open>
  The handler of a button is its \<open>onclick\<close> attribute, read as a script. \<open>js_call\<close>
  reads a script that is one call of a named function with one string literal in single
  quotes, without escapes, and gives the name and the string; any other script (one that
  does not parse, or does something else) gives \<open>None\<close>.
\<close>

definition ident_char :: "char \<Rightarrow> bool" where
  "ident_char c =
     (let n = (of_char c :: nat) in
      (97 \<le> n \<and> n \<le> 122) \<or> (65 \<le> n \<and> n \<le> 90) \<or> (48 \<le> n \<and> n \<le> 57)
      \<or> c = CHR ''_'' \<or> c = CHR ''$'')"

definition digit_char :: "char \<Rightarrow> bool" where
  "digit_char c = (let n = (of_char c :: nat) in 48 \<le> n \<and> n \<le> 57)"

definition literal_char :: "char \<Rightarrow> bool" where
  "literal_char c = (printable c \<and> c \<noteq> CHR 0x27 \<and> c \<noteq> CHR 0x5C)"

definition js_call :: "string \<Rightarrow> (string \<times> string) option" where
  "js_call src =
     (let name = takeWhile ident_char src;
          rest = dropWhile ident_char src;
          arg = take (length rest - 4) (drop 2 rest)
      in if name \<noteq> [] \<and> \<not> digit_char (hd name)
            \<and> rest = ''('' @ [CHR 0x27] @ arg @ [CHR 0x27] @ '')''
            \<and> list_all literal_char arg
         then Some (name, arg) else None)"


subsection \<open>Writing to the page\<close>

text \<open>\<open>el.innerHTML = ...\<close> with \<open>el = document.getElementById("daemon-content")\<close>,
  where \<open>h\<close> is what the parser makes of the string.\<close>

definition set_innerHTML :: "html \<Rightarrow> world \<Rightarrow> result" where
  "set_innerHTML h w =
     (case content w of
        None \<Rightarrow> Inl (TypeError, w)
      | Some old \<Rightarrow> Inr (w\<lparr>content := Some h\<rparr>))"

text \<open>\<open>row.textContent = t\<close> with \<open>row = document.getElementById("daemon-status-row")\<close>.\<close>

definition set_status_row :: "string \<Rightarrow> world \<Rightarrow> result" where
  "set_status_row t w =
     (case content w of
        Some (Request_card c) \<Rightarrow> Inr (w\<lparr>content := Some (Request_card (c\<lparr>status_row := t\<rparr>))\<rparr>)
      | Some (Other_markup c (Some old)) \<Rightarrow> Inr (w\<lparr>content := Some (Other_markup c (Some t))\<rparr>)
      | _ \<Rightarrow> Inl (TypeError, w))"

definition console_error :: "string \<Rightarrow> js_error \<Rightarrow> world \<Rightarrow> result" where
  "console_error msg e w = Inr (w\<lparr>console := console w @ [(msg, e)]\<rparr>)"

definition try_catch :: "result \<Rightarrow> (js_error \<Rightarrow> world \<Rightarrow> result) \<Rightarrow> result" where
  "try_catch body handler = (case body of Inl (e, w) \<Rightarrow> handler e w | Inr w \<Rightarrow> Inr w)"

text \<open>The state in which a promise settles, fulfilled or not.\<close>

fun settled :: "result \<Rightarrow> world" where
  "settled (Inl (e, w)) = w"
| "settled (Inr w) = w"

subsection \<open>fetchRequests\<close>

definition quoted_call :: "string \<Rightarrow> string \<Rightarrow> string" where
  "quoted_call f arg = f @ ''('' @ [CHR 0x27] @ arg @ [CHR 0x27] @ '')''"

text \<open>The template literal: its substitutions, evaluated and converted to strings in
  order. The result is the string that goes to \<open>innerHTML\<close>, given by what stands in each
  place of the template; \<open>written_card\<close> is what the page makes of it.\<close>

definition render_card :: "builtins \<Rightarrow> jsval \<Rightarrow> js_error + card" where
  "render_card B r =
     and_then (get_prop r ''client_ip'') (\<lambda>ip.
     and_then (interpolate (if truthy ip then ip else JStr ''unknown'')) (\<lambda>shown_client.
     and_then (get_prop r ''request_id'') (\<lambda>rid.
     and_then (interpolate rid) (\<lambda>shown.
     and_then (get_prop r ''status'') (\<lambda>st.
     and_then (call_toUpperCase B st) (\<lambda>pill.
     and_then (interpolate rid) (\<lambda>ignore_arg.
     and_then (interpolate rid) (\<lambda>accept_arg.
       Inr \<lparr>client = shown_client, shown_id = shown, status_pill = pill,
            ignore_onclick = quoted_call ''dismiss'' ignore_arg,
            accept_onclick = quoted_call ''approve'' accept_arg,
            status_row = ''''\<rparr>))))))))"

definition fetchRequests_try :: "builtins \<Rightarrow> fetch_outcome \<Rightarrow> world \<Rightarrow> result" where
  "fetchRequests_try B out w =
     (let w1 = do_fetch (GET ''/daemon/pairing/requests'') w in
      case out of
        Rejected \<Rightarrow> Inl (FetchFailed, w1)
      | Response code body \<Rightarrow>
          if \<not> res_ok code then Inr w1
          else
            (case body of
               None \<Rightarrow> Inl (SyntaxError, w1)
             | Some data \<Rightarrow>
                 (case get_prop data ''requests'' of
                    Inl e \<Rightarrow> Inl (e, w1)
                  | Inr rq \<Rightarrow>
                      (let reqs = (if truthy rq then rq else JArr []) in
                       case get_prop reqs ''length'' of
                         Inl e \<Rightarrow> Inl (e, w1)
                       | Inr len \<Rightarrow>
                           if \<not> truthy len then set_innerHTML Empty_state w1
                           else
                             (case and_then (index0 reqs) (render_card B) of
                                Inl e \<Rightarrow> Inl (e, w1)
                              | Inr c \<Rightarrow> set_innerHTML (written_card B c) w1)))))"

definition fetchRequests :: "builtins \<Rightarrow> fetch_outcome \<Rightarrow> world \<Rightarrow> result" where
  "fetchRequests B out w =
     try_catch (fetchRequests_try B out w) (console_error ''Failed to fetch pairing requests'')"

subsection \<open>approve\<close>

text \<open>The two texts \<open>approve\<close> writes; the first starts with a snowflake (U+2744) and
  has an en dash (U+2013), given here in UTF-8.\<close>

definition trusted_message :: string where
  "trusted_message =
     [CHR 0xE2, CHR 0x9D, CHR 0x84] @ '' Flake added '' @ [CHR 0xE2, CHR 0x80, CHR 0x93]
       @ '' this host is now trusted by ICE Studio.''"

definition failed_message :: string where
  "failed_message = ''Failed to approve flake.''"

text \<open>\<open>data.ok && data.status === "approved"\<close>\<close>

definition is_approved :: "jsval \<Rightarrow> js_error + bool" where
  "is_approved data =
     and_then (get_prop data ''ok'') (\<lambda>ok.
       if \<not> truthy ok then Inr False
       else and_then (get_prop data ''status'') (\<lambda>st. Inr (st = JStr ''approved'')))"

definition approve_try :: "string \<Rightarrow> fetch_outcome \<Rightarrow> world \<Rightarrow> result" where
  "approve_try ident out w =
     (let w1 = do_fetch (POST ''/daemon/pairing/approve'' (JObj [(''request_id'', JStr ident)])) w in
      case out of
        Rejected \<Rightarrow> Inl (FetchFailed, w1)
      | Response code body \<Rightarrow>
          (case body of
             None \<Rightarrow> Inl (SyntaxError, w1)
           | Some data \<Rightarrow>
               (case is_approved data of
                  Inl e \<Rightarrow> Inl (e, w1)
                | Inr True \<Rightarrow>
                    (case set_status_row trusted_message w1 of
                       Inl x \<Rightarrow> Inl x
                     | Inr w2 \<Rightarrow> Inr (w2\<lparr>timers := timers w2 @ [Timeout WindowClose 1500]\<rparr>))
                | Inr False \<Rightarrow> set_status_row failed_message w1)))"

definition approve :: "string \<Rightarrow> fetch_outcome \<Rightarrow> world \<Rightarrow> result" where
  "approve ident out w =
     try_catch (approve_try ident out w) (console_error ''Failed to approve pairing'')"

subsection \<open>dismiss\<close>

text \<open>\<open>out\<close> is the outcome of the POST, \<open>next_out\<close> that of the GET of the
  \<open>fetchRequests()\<close> that follows, which is called and not awaited.\<close>

definition dismiss_try :: "builtins \<Rightarrow> string \<Rightarrow> fetch_outcome \<Rightarrow> fetch_outcome \<Rightarrow> world \<Rightarrow> result" where
  "dismiss_try B ident out next_out w =
     (let w1 = do_fetch (POST ''/daemon/pairing/dismiss'' (JObj [(''request_id'', JStr ident)])) w in
      case out of
        Rejected \<Rightarrow> Inl (FetchFailed, w1)
      | Response code body \<Rightarrow> Inr (settled (fetchRequests B next_out w1)))"

definition dismiss :: "builtins \<Rightarrow> string \<Rightarrow> fetch_outcome \<Rightarrow> fetch_outcome \<Rightarrow> world \<Rightarrow> result" where
  "dismiss B ident out next_out w =
     try_catch (dismiss_try B ident out next_out w)
       (console_error ''Failed to dismiss pairing request'')"

subsection \<open>The top level and the timer\<close>

text \<open>\<open>fetchRequests(); setInterval(fetchRequests, 4000);\<close>\<close>

definition script :: "builtins \<Rightarrow> fetch_outcome \<Rightarrow> world \<Rightarrow> world" where
  "script B out w =
     (let w1 = settled (fetchRequests B out w) in
      w1\<lparr>timers := timers w1 @ [Interval FetchRequests 4000]\<rparr>)"

text \<open>One firing of the interval timer, and a run of firings, one per outcome of the
  GET each of them sends.\<close>

definition tick :: "builtins \<Rightarrow> fetch_outcome \<Rightarrow> world \<Rightarrow> world" where
  "tick B out w =
     (if Interval FetchRequests 4000 \<in> set (timers w) then settled (fetchRequests B out w) else w)"

fun poll :: "builtins \<Rightarrow> fetch_outcome list \<Rightarrow> world \<Rightarrow> world" where
  "poll B [] w = w"
| "poll B (out # outs) w = poll B outs (tick B out w)"

definition polls_sent :: "world \<Rightarrow> nat" where
  "polls_sent w = length (filter (\<lambda>r. r = GET ''/daemon/pairing/requests'') (sent w))"


subsection \<open>Inputs for the worked examples\<close>

text \<open>A runtime for the examples, whose strings are ASCII: \<open>toUpperCase\<close> on ASCII
  letters (clearing bit 5 of a lower-case letter). The cards of the examples leave the
  markup intact, so \<open>row_survives\<close> is never asked.\<close>

fun clear_bit5 :: "char \<Rightarrow> char" where
  "clear_bit5 (Char b0 b1 b2 b3 b4 b5 b6 b7) = Char b0 b1 b2 b3 b4 False b6 b7"

definition ascii_upper :: "char \<Rightarrow> char" where
  "ascii_upper c =
     (let n = (of_char c :: nat) in if 97 \<le> n \<and> n \<le> 122 then clear_bit5 c else c)"

definition ascii_runtime :: builtins where
  "ascii_runtime = \<lparr>toUpperCase = map ascii_upper, row_survives = (\<lambda>c. False)\<rparr>"

definition pending_entry :: "string \<Rightarrow> string \<Rightarrow> jsval" where
  "pending_entry rid ip =
     JObj [(''request_id'', JStr rid), (''client_ip'', JStr ip), (''status'', JStr ''pending'')]"

definition fresh_page :: world where
  "fresh_page = \<lparr>content = Some Static_markup, console = [], sent = [], timers = []\<rparr>"

definition pending_card :: "string \<Rightarrow> string \<Rightarrow> card" where
  "pending_card rid ip =
     \<lparr>client = ip, shown_id = rid, status_pill = ''PENDING'',
      ignore_onclick = quoted_call ''dismiss'' rid,
      accept_onclick = quoted_call ''approve'' rid, status_row = []\<rparr>"

section \<open>The daemon behind the three endpoints\<close>

text \<open>
  The script is the only file of the daemon at hand; the code that answers its three
  requests is not. The definitions of this section follow the specification's contracts of
  RequestStore, TrustLedger and PairingService. Time is a natural number handed to each
  operation that reads the clock.
\<close>

text \<open>Modelled from the spec: the states of a PairingRequest, which is not among the
  sources.\<close>

datatype status = Pending | Approved | Dismissed | Expired

text \<open>Modelled from the spec: the error taxonomy of the daemon, which is not among the
  sources.\<close>

datatype error = NotFound | InvalidTransition | AlreadyResolved | CapacityExceeded
  | LedgerWriteFailure

text \<open>Modelled from the spec: PairingRequest, which is not among the sources. The id is
  generated by the store; the address may be absent.\<close>

record pairing_request =
  request_id :: nat
  client_ip :: "string option"
  status :: status
  created_at :: nat

text \<open>Modelled from the spec: the configured bound of pending requests and the expiry
  window, which are not among the sources.\<close>

record config =
  capacity :: nat
  expiry_window :: nat

text \<open>Modelled from the spec: the state of RequestStore, which is not among the sources:
  the requests in the order of their admission, and the next id to hand out.\<close>

record request_store =
  requests :: "pairing_request list"
  next_id :: nat

subsection \<open>RequestStore\<close>

text \<open>Modelled from the spec: RequestStore.admit, which is not among the sources. It
  creates a pending request under a new id, and fails when one more pending request
  would exceed the configured bound.\<close>

definition admit :: "config \<Rightarrow> nat \<Rightarrow> string option \<Rightarrow> request_store \<Rightarrow> error + (nat \<times> request_store)" where
  "admit cfg now ip s =
     (if capacity cfg \<le> length (filter (\<lambda>r. status r = Pending) (requests s))
      then Inl CapacityExceeded
      else Inr (next_id s,
        s\<lparr>requests := requests s @
              [\<lparr>request_id = next_id s, client_ip = ip, status = Pending, created_at = now\<rparr>],
          next_id := Suc (next_id s)\<rparr>))"

text \<open>Modelled from the spec: the expiry threshold of RequestStore, which is not among
  the sources. A request has crossed it when more than the window has passed since its
  creation.\<close>

definition overdue :: "config \<Rightarrow> nat \<Rightarrow> pairing_request \<Rightarrow> bool" where
  "overdue cfg now r = (created_at r + expiry_window cfg < now)"

text \<open>Modelled from the spec: the lazy transition to \<open>expired\<close> on read, which is not
  among the sources.\<close>

definition expire :: "config \<Rightarrow> nat \<Rightarrow> pairing_request \<Rightarrow> pairing_request" where
  "expire cfg now r = (if status r = Pending \<and> overdue cfg now r then r\<lparr>status := Expired\<rparr> else r)"

text \<open>Modelled from the spec: RequestStore.list_pending, which is not among the sources.
  It expires what is overdue, and returns the requests still pending, oldest first.\<close>

definition list_pending :: "config \<Rightarrow> nat \<Rightarrow> request_store \<Rightarrow> pairing_request list \<times> request_store" where
  "list_pending cfg now s =
     (let s' = s\<lparr>requests := map (expire cfg now) (requests s)\<rparr>
      in (sort_key created_at (filter (\<lambda>r. status r = Pending) (requests s')), s'))"

text \<open>Modelled from the spec: RequestStore.get, which is not among the sources.\<close>

definition get :: "request_store \<Rightarrow> nat \<Rightarrow> error + pairing_request" where
  "get s rid =
     (case find (\<lambda>r. request_id r = rid) (requests s) of
        None \<Rightarrow> Inl NotFound
      | Some r \<Rightarrow> Inr r)"

text \<open>Modelled from the spec: the write of RequestStore.transition, which is not among
  the sources: the request found under the id takes the new status.\<close>

fun set_status :: "nat \<Rightarrow> status \<Rightarrow> pairing_request list \<Rightarrow> pairing_request list" where
  "set_status rid new [] = []"
| "set_status rid new (r # rs) =
     (if request_id r = rid then r\<lparr>status := new\<rparr> # rs else r # set_status rid new rs)"

text \<open>Modelled from the spec: RequestStore.transition, which is not among the sources.
  It moves a pending request to \<open>approved\<close> or \<open>dismissed\<close>, and fails on an unknown id,
  on a request that is not pending, and on any other target.\<close>

definition transition :: "request_store \<Rightarrow> nat \<Rightarrow> status \<Rightarrow> error + request_store" where
  "transition s rid new =
     (case get s rid of
        Inl e \<Rightarrow> Inl e
      | Inr r \<Rightarrow>
          if status r \<noteq> Pending then Inl InvalidTransition
          else if new \<noteq> Approved \<and> new \<noteq> Dismissed then Inl InvalidTransition
          else Inr (s\<lparr>requests := set_status rid new (requests s)\<rparr>))"

text \<open>Modelled from the spec: the operations of RequestStore as one type, and a run of
  them, for the statements about every sequence of operations. An operation that fails
  leaves the store as it was.\<close>

datatype store_op =
    Admit nat "string option"
  | List_pending nat
  | Get nat
  | Transition nat status

fun apply_op :: "config \<Rightarrow> store_op \<Rightarrow> request_store \<Rightarrow> request_store" where
  "apply_op cfg (Admit now ip) s = (case admit cfg now ip s of Inl e \<Rightarrow> s | Inr (rid, s') \<Rightarrow> s')"
| "apply_op cfg (List_pending now) s = snd (list_pending cfg now s)"
| "apply_op cfg (Get rid) s = s"
| "apply_op cfg (Transition rid new) s = (case transition s rid new of Inl e \<Rightarrow> s | Inr s' \<Rightarrow> s')"

fun run_ops :: "config \<Rightarrow> store_op list \<Rightarrow> request_store \<Rightarrow> request_store" where
  "run_ops cfg [] s = s"
| "run_ops cfg (op # ops) s = run_ops cfg ops (apply_op cfg op s)"

subsection \<open>TrustLedger\<close>

text \<open>Modelled from the spec: TrustedClient, which is not among the sources. The ledger
  is the list of these records.\<close>

record trusted_client =
  client_id :: string
  granted_at :: nat

text \<open>Modelled from the spec: TrustLedger.is_trusted, which is not among the sources.\<close>

definition is_trusted :: "trusted_client list \<Rightarrow> string \<Rightarrow> bool" where
  "is_trusted ledger ident = (ident \<in> set (map client_id ledger))"

text \<open>Modelled from the spec: TrustLedger.grant, which is not among the sources.
  \<open>durable\<close> says whether the write reaches the disk; a write that does not leaves the
  ledger as it was.\<close>

definition grant :: "trusted_client list \<Rightarrow> string \<Rightarrow> nat \<Rightarrow> bool \<Rightarrow> error + (bool \<times> trusted_client list)" where
  "grant ledger ident now durable =
     (if is_trusted ledger ident then Inr (False, ledger)
      else if \<not> durable then Inl LedgerWriteFailure
      else Inr (True, ledger @ [\<lparr>client_id = ident, granted_at = now\<rparr>]))"

text \<open>Modelled from the spec: the records the ledger holds for one identity.\<close>

definition records_of :: "trusted_client list \<Rightarrow> string \<Rightarrow> trusted_client list" where
  "records_of ledger ident = filter (\<lambda>c. client_id c = ident) ledger"

subsection \<open>PairingService\<close>

text \<open>Modelled from the spec: the state PairingService works on, which is not among the
  sources.\<close>

record service =
  store :: request_store
  ledger :: "trusted_client list"

text \<open>Modelled from the spec: PairingService.list_requests, which is not among the
  sources. It delegates to \<open>list_pending\<close> and returns id, address and status of each.\<close>

definition list_requests :: "config \<Rightarrow> nat \<Rightarrow> service \<Rightarrow> (nat \<times> string option \<times> status) list \<times> service" where
  "list_requests cfg now svc =
     (case list_pending cfg now (store svc) of
        (rs, s') \<Rightarrow> (map (\<lambda>r. (request_id r, client_ip r, status r)) rs, svc\<lparr>store := s'\<rparr>))"

text \<open>Modelled from the spec: PairingService.dismiss, which is not among the sources.
  It returns \<open>ok\<close>; a request that is unknown or already resolved is left as it is.\<close>

definition service_dismiss :: "service \<Rightarrow> nat \<Rightarrow> bool \<times> service" where
  "service_dismiss svc rid =
     (case transition (store svc) rid Dismissed of
        Inl e \<Rightarrow> (True, svc)
      | Inr s' \<Rightarrow> (True, svc\<lparr>store := s'\<rparr>))"

subsection \<open>approve, step by step\<close>

text \<open>Modelled from the spec: the reply of PairingService.approve, which is not among the
  sources. \<open>Reply_ok\<close> is \<open>{ok: true, status: approved}\<close>; \<open>Reply_failed e st\<close> is
  \<open>{ok: false}\<close> with the error the call met and the status the request has, if it is
  known.\<close>

datatype approve_reply = Reply_ok | Reply_failed error "status option"







subsection \<open>Requests over time, and inputs for the worked examples\<close>

text \<open>Modelled from the spec: the state machine of a PairingRequest, which is not among
  the sources. \<open>later_version r r'\<close> says that \<open>r'\<close> is the request \<open>r\<close> at a later
  time: the same id, address and creation time, and a status that is the same or has left
  \<open>pending\<close> for one of the three terminal states. \<open>grows_to\<close> lifts this to the list
  of requests of a store, which only grows at its end.\<close>

definition later_version :: "pairing_request \<Rightarrow> pairing_request \<Rightarrow> bool" where
  "later_version r r' =
     (request_id r' = request_id r \<and> client_ip r' = client_ip r \<and> created_at r' = created_at r
      \<and> (status r' = status r \<or> (status r = Pending \<and> status r' \<in> {Approved, Dismissed, Expired})))"

definition grows_to :: "pairing_request list \<Rightarrow> pairing_request list \<Rightarrow> bool" where
  "grows_to xs ys = (length xs \<le> length ys \<and> (\<forall>i<length xs. later_version (xs ! i) (ys ! i)))"

text \<open>A store of four requests, and a service around it, for the examples.\<close>

definition example_config :: config where
  "example_config = \<lparr>capacity = 8, expiry_window = 10\<rparr>"

definition example_store :: request_store where
  "example_store =
     \<lparr>requests =
        [\<lparr>request_id = 0, client_ip = Some ''10.0.0.5'', status = Pending, created_at = 5\<rparr>,
         \<lparr>request_id = 1, client_ip = None, status = Pending, created_at = 15\<rparr>,
         \<lparr>request_id = 2, client_ip = Some ''10.0.0.6'', status = Pending, created_at = 12\<rparr>,
         \<lparr>request_id = 3, client_ip = Some ''10.0.0.7'', status = Approved, created_at = 14\<rparr>],
      next_id = 4\<rparr>"

definition example_service :: service where
  "example_service = \<lparr>store = example_store, ledger = []\<rparr>"

section \<open>Properties of the page script\<close>

subsection \<open>Numbers and lengths\<close>

declare decimal.simps [simp del]

lemma decimal_not_empty: "decimal n \<noteq> []"
  by (induction n rule: decimal.induct) (subst decimal.simps, simp)

lemma digit_zero: "n < 10 \<Longrightarrow> (''0123456789'' ! n = CHR ''0'') = (n = 0)"
  by (auto simp: eval_nat_numeral less_Suc_eq)

lemma decimal_zero: "(decimal n = ''0'') = (n = 0)"
proof (cases "n < 10")
  case True
  then show ?thesis by (subst decimal.simps) (simp add: digit_zero)
next
  case False
  then have "decimal n = decimal (n div 10) @ [''0123456789'' ! (n mod 10)]"
    by (subst decimal.simps) simp
  moreover have "length (decimal (n div 10)) \<noteq> 0" by (simp add: decimal_not_empty)
  ultimately have "length (decimal n) \<noteq> 1" by simp
  with False show ?thesis by auto
qed

lemma truthy_length: "truthy (JNum (decimal n)) = (n \<noteq> 0)"
  by (simp add: decimal_zero)

subsection \<open>What one call of fetchRequests does\<close>

lemma fetchRequests_not_ok:
  assumes "\<not> res_ok code"
  shows "fetchRequests B (Response code body) w
           = Inr (do_fetch (GET ''/daemon/pairing/requests'') w)"
  using assms by (simp add: fetchRequests_def fetchRequests_try_def try_catch_def Let_def)

lemma fetchRequests_parse_failure:
  assumes "res_ok code"
  shows "fetchRequests B (Response code None) w
           = Inr ((do_fetch (GET ''/daemon/pairing/requests'') w)
                    \<lparr>console := console w @ [(''Failed to fetch pairing requests'', SyntaxError)]\<rparr>)"
  using assms
  by (simp add: fetchRequests_def fetchRequests_try_def try_catch_def Let_def console_error_def
      do_fetch_def)

lemma fetchRequests_null_body:
  assumes "res_ok code"
  shows "fetchRequests B (Response code (Some JNull)) w
           = Inr ((do_fetch (GET ''/daemon/pairing/requests'') w)
                    \<lparr>console := console w @ [(''Failed to fetch pairing requests'', TypeError)]\<rparr>)"
  using assms
  by (simp add: fetchRequests_def fetchRequests_try_def try_catch_def Let_def console_error_def
      do_fetch_def)

lemma fetchRequests_timers: "timers (settled (fetchRequests B out w)) = timers w"
  by (simp add: fetchRequests_def fetchRequests_try_def try_catch_def Let_def console_error_def
      do_fetch_def set_innerHTML_def split: fetch_outcome.splits option.splits sum.splits)

lemma fetchRequests_polls: "polls_sent (settled (fetchRequests B out w)) = Suc (polls_sent w)"
  by (simp add: fetchRequests_def fetchRequests_try_def try_catch_def Let_def console_error_def
      do_fetch_def set_innerHTML_def polls_sent_def
      split: fetch_outcome.splits option.splits sum.splits)

lemma fetchRequests_empty:
  assumes "res_ok code" and "get_prop data ''requests'' = Inr rq"
    and "rq = JUndefined \<or> rq = JNull \<or> rq = JArr []" and "content w = Some old"
  shows "fetchRequests B (Response code (Some data)) w
           = Inr ((do_fetch (GET ''/daemon/pairing/requests'') w)\<lparr>content := Some Empty_state\<rparr>)"
  using assms
  by (auto simp: fetchRequests_def fetchRequests_try_def try_catch_def Let_def do_fetch_def
      set_innerHTML_def decimal_zero)



lemma render_card_pill:
  assumes "render_card B r = Inr c" and "get_prop r ''status'' = Inr (JStr s)"
  shows "status_pill c = toUpperCase B s"
  using assms by (auto simp: render_card_def and_then_def split: sum.splits)

lemma render_pending_entry:
  "render_card ascii_runtime (pending_entry rid ip)
     = Inr (pending_card rid (if ip = [] then ''unknown'' else ip))"
  by (simp add: render_card_def and_then_def pending_entry_def obj_member_def ascii_runtime_def
      pending_card_def ascii_upper_def)

subsection \<open>What the page makes of the markup\<close>










text \<open>A request id with a double quote in it ends the attribute early: the card is not
  the one of the template, and what is left of the handler is no call.\<close>

lemma quote_breaks_markup:
  "\<not> markup_intact (pending_card (''a'' @ [CHR 0x22] @ ''b'') ''10.0.0.5'')
   \<and> js_call (takeWhile (\<lambda>c. c \<noteq> CHR 0x22)
         (ignore_onclick (pending_card (''a'' @ [CHR 0x22] @ ''b'') ''10.0.0.5''))) = None"
  by (simp add: markup_intact_def pending_card_def quoted_call_def attr_char_def printable_def
      js_call_def ident_char_def Let_def)

subsection \<open>The timer\<close>

lemma tick_timers: "timers (tick B out w) = timers w"
  by (simp add: tick_def fetchRequests_timers)

lemma poll_timers: "timers (poll B outs w) = timers w"
  by (induction outs arbitrary: w) (simp_all add: tick_timers)

lemma poll_polls:
  "Interval FetchRequests 4000 \<in> set (timers w) \<Longrightarrow>
     polls_sent (poll B outs w) = polls_sent w + length outs"
proof (induction outs arbitrary: w)
  case Nil
  then show ?case by simp
next
  case (Cons out outs)
  have t: "Interval FetchRequests 4000 \<in> set (timers (tick B out w))"
    using Cons.prems by (simp add: tick_timers)
  have "polls_sent (tick B out w) = Suc (polls_sent w)"
    using Cons.prems by (simp add: tick_def fetchRequests_polls)
  with Cons.IH [OF t] show ?case by simp
qed

lemma script_timers: "timers (script B out w) = timers w @ [Interval FetchRequests 4000]"
  by (simp add: script_def Let_def fetchRequests_timers)

lemma script_polls: "polls_sent (script B out w) = Suc (polls_sent w)"
  using fetchRequests_polls [of B out w] by (simp add: script_def Let_def polls_sent_def)

subsection \<open>approve and dismiss\<close>

lemma approve_reply:
  assumes "content w = Some (Request_card c)"
    and "get_prop data ''ok'' = Inr okv"
    and "get_prop data ''status'' = Inr st"
  shows "approve ident (Response code (Some data)) w =
      Inr (if truthy okv \<and> st = JStr ''approved''
           then (do_fetch (POST ''/daemon/pairing/approve'' (JObj [(''request_id'', JStr ident)])) w)
                  \<lparr>content := Some (Request_card (c\<lparr>status_row := trusted_message\<rparr>)),
                   timers := timers w @ [Timeout WindowClose 1500]\<rparr>
           else (do_fetch (POST ''/daemon/pairing/approve'' (JObj [(''request_id'', JStr ident)])) w)
                  \<lparr>content := Some (Request_card (c\<lparr>status_row := failed_message\<rparr>))\<rparr>)"
  using assms
  by (simp add: approve_def approve_try_def try_catch_def Let_def is_approved_def and_then_def
      set_status_row_def do_fetch_def)

lemma messages_differ: "failed_message \<noteq> trusted_message"
  by (simp add: failed_message_def trusted_message_def)

lemma dismiss_response:
  "dismiss B ident (Response code body) next_out w =
     Inr (settled (fetchRequests B next_out
        (do_fetch (POST ''/daemon/pairing/dismiss'' (JObj [(''request_id'', JStr ident)])) w)))"
  by (simp add: dismiss_def dismiss_try_def try_catch_def Let_def)

lemma dismiss_rejected:
  "dismiss B ident Rejected next_out w =
     Inr ((do_fetch (POST ''/daemon/pairing/dismiss'' (JObj [(''request_id'', JStr ident)])) w)
            \<lparr>console := console w @ [(''Failed to dismiss pairing request'', FetchFailed)]\<rparr>)"
  by (simp add: dismiss_def dismiss_try_def try_catch_def Let_def console_error_def do_fetch_def)

lemma polls_do_fetch_post: "polls_sent (do_fetch (POST url body) w) = polls_sent w"
  by (simp add: polls_sent_def do_fetch_def)

subsection \<open>The claims about the script\<close>




text \<open>
  Claim C7, as amended. \<open>fetchRequests\<close> does not treat a response whose status is not
  2xx and a 2xx response whose body does not parse identically: the first makes it
  return silently, the second is caught and reported with \<open>console.error\<close>, so the two
  results differ. They agree in what the claim goes on to say: in both the promise is
  fulfilled (nothing is thrown to the caller) and the content of the page is what it was.
  The script calls \<open>fetchRequests\<close> once and registers it with \<open>setInterval\<close> at
  4000 ms; no call touches the timers, so after any run of outcomes the timer is still
  registered and every firing has sent its GET.
\<close>

theorem fetchRequests_ignores_failed_response:
  assumes "\<not> res_ok bad_code" and "res_ok good_code"
  shows "fetchRequests B (Response bad_code body) w
           = Inr (do_fetch (GET ''/daemon/pairing/requests'') w)
       \<and> fetchRequests B (Response good_code None) w
           = Inr ((do_fetch (GET ''/daemon/pairing/requests'') w)
                    \<lparr>console := console w @ [(''Failed to fetch pairing requests'', SyntaxError)]\<rparr>)
       \<and> fetchRequests B (Response bad_code body) w \<noteq> fetchRequests B (Response good_code None) w
       \<and> content (settled (fetchRequests B (Response bad_code body) w)) = content w
       \<and> content (settled (fetchRequests B (Response good_code None) w)) = content w
       \<and> polls_sent (poll B outs (script B out w)) = polls_sent w + 1 + length outs
       \<and> timers (poll B outs (script B out w)) = timers w @ [Interval FetchRequests 4000]"
proof -
  have a: "fetchRequests B (Response bad_code body) w
           = Inr (do_fetch (GET ''/daemon/pairing/requests'') w)"
    by (rule fetchRequests_not_ok [OF assms(1)])
  have b: "fetchRequests B (Response good_code None) w
           = Inr ((do_fetch (GET ''/daemon/pairing/requests'') w)
                    \<lparr>console := console w @ [(''Failed to fetch pairing requests'', SyntaxError)]\<rparr>)"
    by (rule fetchRequests_parse_failure [OF assms(2)])
  have "console (settled (fetchRequests B (Response bad_code body) w))
      \<noteq> console (settled (fetchRequests B (Response good_code None) w))"
    by (simp add: a b do_fetch_def)
  then have n: "fetchRequests B (Response bad_code body) w
      \<noteq> fetchRequests B (Response good_code None) w"
    by auto
  have c: "content (settled (fetchRequests B (Response bad_code body) w)) = content w"
    by (simp add: a do_fetch_def)
  have d: "content (settled (fetchRequests B (Response good_code None) w)) = content w"
    by (simp add: b do_fetch_def)
  have "Interval FetchRequests 4000 \<in> set (timers (script B out w))"
    by (simp add: script_timers)
  then have e: "polls_sent (poll B outs (script B out w)) = polls_sent w + 1 + length outs"
    by (simp add: poll_polls script_polls)
  have f: "timers (poll B outs (script B out w)) = timers w @ [Interval FetchRequests 4000]"
    by (simp add: poll_timers script_timers)
  from a b n c d e f show ?thesis by blast
qed

text \<open>The theorem at a 500 response and at a 200 response that does not parse, on a page
  showing a card, with a first poll that fails to connect and three firings of the timer
  (a 503, a body that does not parse, no connection).\<close>

theorem fetchRequests_ignores_failed_response_witness:
  "fetchRequests ascii_runtime (Response 500 None)
       (fresh_page\<lparr>content := Some (Request_card (pending_card ''r1'' ''10.0.0.5''))\<rparr>)
     = Inr (do_fetch (GET ''/daemon/pairing/requests'')
         (fresh_page\<lparr>content := Some (Request_card (pending_card ''r1'' ''10.0.0.5''))\<rparr>))
   \<and> content (settled (fetchRequests ascii_runtime (Response 500 None)
         (fresh_page\<lparr>content := Some (Request_card (pending_card ''r1'' ''10.0.0.5''))\<rparr>)))
     = Some (Request_card (pending_card ''r1'' ''10.0.0.5''))
   \<and> content (settled (fetchRequests ascii_runtime (Response 200 None)
         (fresh_page\<lparr>content := Some (Request_card (pending_card ''r1'' ''10.0.0.5''))\<rparr>)))
     = Some (Request_card (pending_card ''r1'' ''10.0.0.5''))
   \<and> polls_sent (poll ascii_runtime [Response 503 None, Response 200 None, Rejected]
         (script ascii_runtime Rejected
           (fresh_page\<lparr>content := Some (Request_card (pending_card ''r1'' ''10.0.0.5''))\<rparr>)))
     = 4"
proof -
  have h1: "\<not> res_ok 500" by (simp add: res_ok_def)
  have h2: "res_ok 200" by (simp add: res_ok_def)
  show ?thesis
    using fetchRequests_ignores_failed_response [OF h1 h2, of ascii_runtime None
        "fresh_page\<lparr>content := Some (Request_card (pending_card ''r1'' ''10.0.0.5''))\<rparr>"
        "[Response 503 None, Response 200 None, Rejected]" Rejected]
    by (simp add: polls_sent_def fresh_page_def do_fetch_def)
qed

text \<open>Claim C7 as it was stated fails: on the fresh page a 500 response leaves the
  console empty, a 200 response that does not parse leaves an error in it, and the two
  results differ.\<close>

theorem fetchRequests_failures_not_identical:
  "console (settled (fetchRequests ascii_runtime (Response 500 None) fresh_page)) = []
   \<and> console (settled (fetchRequests ascii_runtime (Response 200 None) fresh_page))
     = [(''Failed to fetch pairing requests'', SyntaxError)]
   \<and> fetchRequests ascii_runtime (Response 500 None) fresh_page
     \<noteq> fetchRequests ascii_runtime (Response 200 None) fresh_page"
proof -
  have h1: "\<not> res_ok 500" by (simp add: res_ok_def)
  have h2: "res_ok 200" by (simp add: res_ok_def)
  have a: "console (settled (fetchRequests ascii_runtime (Response 500 None) fresh_page)) = []"
    by (simp add: fetchRequests_not_ok [OF h1] do_fetch_def fresh_page_def)
  have b: "console (settled (fetchRequests ascii_runtime (Response 200 None) fresh_page))
     = [(''Failed to fetch pairing requests'', SyntaxError)]"
    by (simp add: fetchRequests_parse_failure [OF h2] do_fetch_def fresh_page_def)
  from a b have "fetchRequests ascii_runtime (Response 500 None) fresh_page
     \<noteq> fetchRequests ascii_runtime (Response 200 None) fresh_page"
    by auto
  with a b show ?thesis by blast
qed

text \<open>
  Claim C8, as amended. \<open>approve\<close> compares the status by strict equality with the
  lower-case string \<open>approved\<close>: for every response that parses to a value other than
  \<open>null\<close>, on a page showing a card, it writes the trusted message (and sets the timer
  that closes the window) exactly when \<open>ok\<close> is truthy and \<open>status\<close> is that string, and
  \<open>Failed to approve flake.\<close> for every other status, whatever its letter case.
  \<open>toUpperCase\<close> is applied only where \<open>fetchRequests\<close> shows the status in the card.
\<close>

theorem approve_compares_status_exactly:
  assumes "content w = Some (Request_card c)"
    and "get_prop data ''ok'' = Inr okv"
    and "get_prop data ''status'' = Inr st"
    and "render_card B r = Inr shown"
    and "get_prop r ''status'' = Inr (JStr s)"
  shows "approve ident (Response code (Some data)) w =
      Inr (if truthy okv \<and> st = JStr ''approved''
           then (do_fetch (POST ''/daemon/pairing/approve'' (JObj [(''request_id'', JStr ident)])) w)
                  \<lparr>content := Some (Request_card (c\<lparr>status_row := trusted_message\<rparr>)),
                   timers := timers w @ [Timeout WindowClose 1500]\<rparr>
           else (do_fetch (POST ''/daemon/pairing/approve'' (JObj [(''request_id'', JStr ident)])) w)
                  \<lparr>content := Some (Request_card (c\<lparr>status_row := failed_message\<rparr>))\<rparr>)
     \<and> status_pill shown = toUpperCase B s"
  using approve_reply [OF assms(1) assms(2) assms(3)] render_card_pill [OF assms(4) assms(5)]
  by simp

text \<open>The theorem at the response \<open>{ok: true, status: "approved"}\<close>.\<close>

theorem approve_compares_status_exactly_witness:
  "approve ''r1'' (Response 200 (Some (JObj [(''ok'', JBool True), (''status'', JStr ''approved'')])))
       (fresh_page\<lparr>content := Some (Request_card (pending_card ''r1'' ''10.0.0.5''))\<rparr>)
     = Inr \<lparr>content = Some (Request_card
               ((pending_card ''r1'' ''10.0.0.5'')\<lparr>status_row := trusted_message\<rparr>)),
            console = [],
            sent = [POST ''/daemon/pairing/approve'' (JObj [(''request_id'', JStr ''r1'')])],
            timers = [Timeout WindowClose 1500]\<rparr>
   \<and> status_pill (pending_card ''r1'' ''10.0.0.5'') = map ascii_upper ''pending''"
proof -
  have h1: "content (fresh_page\<lparr>content := Some (Request_card (pending_card ''r1'' ''10.0.0.5''))\<rparr>)
      = Some (Request_card (pending_card ''r1'' ''10.0.0.5''))"
    by simp
  have h2: "get_prop (JObj [(''ok'', JBool True), (''status'', JStr ''approved'')]) ''ok''
      = Inr (JBool True)"
    by (simp add: obj_member_def)
  have h3: "get_prop (JObj [(''ok'', JBool True), (''status'', JStr ''approved'')]) ''status''
      = Inr (JStr ''approved'')"
    by (simp add: obj_member_def)
  have h4: "render_card ascii_runtime (pending_entry ''r1'' ''10.0.0.5'')
      = Inr (pending_card ''r1'' ''10.0.0.5'')"
    by (simp add: render_pending_entry)
  have h5: "get_prop (pending_entry ''r1'' ''10.0.0.5'') ''status'' = Inr (JStr ''pending'')"
    by (simp add: pending_entry_def obj_member_def)
  show ?thesis
    using approve_compares_status_exactly [OF h1 h2 h3 h4 h5, of "''r1''" 200]
    by (simp add: do_fetch_def fresh_page_def ascii_runtime_def)
qed

text \<open>Claim C8 as it was stated fails: for \<open>{ok: true, status: "APPROVED"}\<close>, which is
  \<open>approved\<close> in upper case, \<open>approve\<close> writes \<open>Failed to approve flake.\<close> and sets no
  timer.\<close>

theorem approve_rejects_upper_case_status:
  "approve ''r1'' (Response 200 (Some (JObj [(''ok'', JBool True), (''status'', JStr ''APPROVED'')])))
       (fresh_page\<lparr>content := Some (Request_card (pending_card ''r1'' ''10.0.0.5''))\<rparr>)
     = Inr \<lparr>content = Some (Request_card
               ((pending_card ''r1'' ''10.0.0.5'')\<lparr>status_row := failed_message\<rparr>)),
            console = [],
            sent = [POST ''/daemon/pairing/approve'' (JObj [(''request_id'', JStr ''r1'')])],
            timers = []\<rparr>
   \<and> map ascii_upper ''approved'' = ''APPROVED''
   \<and> failed_message \<noteq> trusted_message"
proof -
  have h1: "content (fresh_page\<lparr>content := Some (Request_card (pending_card ''r1'' ''10.0.0.5''))\<rparr>)
      = Some (Request_card (pending_card ''r1'' ''10.0.0.5''))"
    by simp
  have h2: "get_prop (JObj [(''ok'', JBool True), (''status'', JStr ''APPROVED'')]) ''ok''
      = Inr (JBool True)"
    by (simp add: obj_member_def)
  have h3: "get_prop (JObj [(''ok'', JBool True), (''status'', JStr ''APPROVED'')]) ''status''
      = Inr (JStr ''APPROVED'')"
    by (simp add: obj_member_def)
  have a: "approve ''r1''
       (Response 200 (Some (JObj [(''ok'', JBool True), (''status'', JStr ''APPROVED'')])))
       (fresh_page\<lparr>content := Some (Request_card (pending_card ''r1'' ''10.0.0.5''))\<rparr>)
     = Inr \<lparr>content = Some (Request_card
               ((pending_card ''r1'' ''10.0.0.5'')\<lparr>status_row := failed_message\<rparr>)),
            console = [],
            sent = [POST ''/daemon/pairing/approve'' (JObj [(''request_id'', JStr ''r1'')])],
            timers = []\<rparr>"
    using approve_reply [OF h1 h2 h3, of "''r1''" 200]
    by (simp add: do_fetch_def fresh_page_def)
  have b: "map ascii_upper ''approved'' = ''APPROVED''"
    by (simp add: ascii_upper_def)
  from a b messages_differ show ?thesis by blast
qed

text \<open>
  Claim C9, as amended. For a response with a 2xx status whose body is a JSON value other
  than \<open>null\<close> in which reading \<open>requests\<close> gives \<open>undefined\<close> (no such member) or
  \<open>null\<close>, on a page that has the element \<open>daemon-content\<close>, \<open>fetchRequests\<close> does
  exactly what it does for the body \<open>{requests: []}\<close>: it writes the empty state, logs
  nothing and its promise is fulfilled. For the body \<open>null\<close> reading \<open>data.requests\<close>
  throws; the error is caught and logged, and the page is left as it was.
\<close>

theorem fetchRequests_without_requests_field:
  assumes "res_ok code"
    and "data \<noteq> JNull" and "data \<noteq> JUndefined"
    and "get_prop data ''requests'' = Inr JUndefined \<or> get_prop data ''requests'' = Inr JNull"
    and "content w = Some old"
  shows "fetchRequests B (Response code (Some data)) w
           = fetchRequests B (Response code (Some (JObj [(''requests'', JArr [])]))) w
       \<and> fetchRequests B (Response code (Some data)) w
           = Inr ((do_fetch (GET ''/daemon/pairing/requests'') w)\<lparr>content := Some Empty_state\<rparr>)
       \<and> fetchRequests B (Response code (Some JNull)) w
           = Inr ((do_fetch (GET ''/daemon/pairing/requests'') w)
                    \<lparr>console := console w @ [(''Failed to fetch pairing requests'', TypeError)]\<rparr>)"
proof -
  from assms(4) obtain rq where rq: "get_prop data ''requests'' = Inr rq"
    and v: "rq = JUndefined \<or> rq = JNull \<or> rq = JArr []"
    by auto
  have a: "fetchRequests B (Response code (Some data)) w
           = Inr ((do_fetch (GET ''/daemon/pairing/requests'') w)\<lparr>content := Some Empty_state\<rparr>)"
    by (rule fetchRequests_empty [OF assms(1) rq v assms(5)])
  have e: "get_prop (JObj [(''requests'', JArr [])]) ''requests'' = Inr (JArr [])"
    by (simp add: obj_member_def)
  have v': "JArr [] = JUndefined \<or> JArr [] = JNull \<or> JArr [] = JArr []" by simp
  have b: "fetchRequests B (Response code (Some (JObj [(''requests'', JArr [])]))) w
           = Inr ((do_fetch (GET ''/daemon/pairing/requests'') w)\<lparr>content := Some Empty_state\<rparr>)"
    by (rule fetchRequests_empty [OF assms(1) e v' assms(5)])
  from a b fetchRequests_null_body [OF assms(1)] show ?thesis by simp
qed

text \<open>The theorem at the body \<open>{ok: true}\<close>, which has no member \<open>requests\<close>.\<close>

theorem fetchRequests_without_requests_field_witness:
  "fetchRequests ascii_runtime (Response 200 (Some (JObj [(''ok'', JBool True)]))) fresh_page
     = fetchRequests ascii_runtime (Response 200 (Some (JObj [(''requests'', JArr [])]))) fresh_page
   \<and> fetchRequests ascii_runtime (Response 200 (Some (JObj [(''ok'', JBool True)]))) fresh_page
     = Inr ((do_fetch (GET ''/daemon/pairing/requests'') fresh_page)\<lparr>content := Some Empty_state\<rparr>)
   \<and> fetchRequests ascii_runtime (Response 200 (Some JNull)) fresh_page
     = Inr ((do_fetch (GET ''/daemon/pairing/requests'') fresh_page)
          \<lparr>console := console fresh_page @ [(''Failed to fetch pairing requests'', TypeError)]\<rparr>)"
proof -
  have h1: "res_ok 200" by (simp add: res_ok_def)
  have h2: "JObj [(''ok'', JBool True)] \<noteq> JNull" by simp
  have h3: "JObj [(''ok'', JBool True)] \<noteq> JUndefined" by simp
  have h4: "get_prop (JObj [(''ok'', JBool True)]) ''requests'' = Inr JUndefined
      \<or> get_prop (JObj [(''ok'', JBool True)]) ''requests'' = Inr JNull"
    by (simp add: obj_member_def)
  have h5: "content fresh_page = Some Static_markup" by (simp add: fresh_page_def)
  show ?thesis
    by (rule fetchRequests_without_requests_field [OF h1 h2 h3 h4 h5])
qed

text \<open>Claim C9 as it was stated fails: the body \<open>null\<close> is a JSON body without a
  \<open>requests\<close> field, and for it the page keeps what it had, not the empty state, an
  error is logged, and the result is not the one for \<open>{requests: []}\<close>.\<close>

theorem fetchRequests_null_body_not_empty_state:
  "content (settled (fetchRequests ascii_runtime (Response 200 (Some JNull)) fresh_page))
     = Some Static_markup
   \<and> console (settled (fetchRequests ascii_runtime (Response 200 (Some JNull)) fresh_page))
     = [(''Failed to fetch pairing requests'', TypeError)]
   \<and> content (settled (fetchRequests ascii_runtime
        (Response 200 (Some (JObj [(''requests'', JArr [])]))) fresh_page))
     = Some Empty_state
   \<and> fetchRequests ascii_runtime (Response 200 (Some JNull)) fresh_page
     \<noteq> fetchRequests ascii_runtime (Response 200 (Some (JObj [(''requests'', JArr [])]))) fresh_page"
proof -
  have h1: "res_ok 200" by (simp add: res_ok_def)
  have h5: "content fresh_page = Some Static_markup" by (simp add: fresh_page_def)
  have e: "get_prop (JObj [(''requests'', JArr [])]) ''requests'' = Inr (JArr [])"
    by (simp add: obj_member_def)
  have v': "JArr [] = JUndefined \<or> JArr [] = JNull \<or> JArr [] = JArr []" by simp
  have a: "content (settled (fetchRequests ascii_runtime (Response 200 (Some JNull)) fresh_page))
     = Some Static_markup"
    by (simp add: fetchRequests_null_body [OF h1] do_fetch_def fresh_page_def)
  have b: "console (settled (fetchRequests ascii_runtime (Response 200 (Some JNull)) fresh_page))
     = [(''Failed to fetch pairing requests'', TypeError)]"
    by (simp add: fetchRequests_null_body [OF h1] do_fetch_def fresh_page_def)
  have c: "content (settled (fetchRequests ascii_runtime
        (Response 200 (Some (JObj [(''requests'', JArr [])]))) fresh_page))
     = Some Empty_state"
    by (simp add: fetchRequests_empty [OF h1 e v' h5] do_fetch_def)
  from a c have "fetchRequests ascii_runtime (Response 200 (Some JNull)) fresh_page
     \<noteq> fetchRequests ascii_runtime (Response 200 (Some (JObj [(''requests'', JArr [])]))) fresh_page"
    by auto
  with a b c show ?thesis by blast
qed

text \<open>
  Claim C10. \<open>dismiss\<close> never reads the response to its POST: for any two responses,
  whatever their status and whether or not their body parses, it ends in the same state,
  the one \<open>fetchRequests\<close> leaves after the POST was sent, so one more GET of the list
  has gone out. When the POST fails to connect, the error is caught and logged, no GET is
  sent, and the promise of \<open>dismiss\<close> is fulfilled all the same.
\<close>

theorem dismiss_never_reads_response:
  "dismiss B ident (Response code1 body1) next_out w
     = dismiss B ident (Response code2 body2) next_out w
   \<and> dismiss B ident (Response code1 body1) next_out w
     = Inr (settled (fetchRequests B next_out
        (do_fetch (POST ''/daemon/pairing/dismiss'' (JObj [(''request_id'', JStr ident)])) w)))
   \<and> polls_sent (settled (dismiss B ident (Response code1 body1) next_out w)) = polls_sent w + 1
   \<and> dismiss B ident Rejected next_out w
     = Inr ((do_fetch (POST ''/daemon/pairing/dismiss'' (JObj [(''request_id'', JStr ident)])) w)
            \<lparr>console := console w @ [(''Failed to dismiss pairing request'', FetchFailed)]\<rparr>)
   \<and> polls_sent (settled (dismiss B ident Rejected next_out w)) = polls_sent w"
proof -
  have a: "polls_sent (settled (dismiss B ident (Response code1 body1) next_out w))
      = polls_sent w + 1"
    by (simp add: dismiss_response fetchRequests_polls polls_do_fetch_post)
  have b: "polls_sent (settled (dismiss B ident Rejected next_out w)) = polls_sent w"
    by (simp add: dismiss_rejected polls_sent_def do_fetch_def)
  from a b show ?thesis
    by (simp add: dismiss_response dismiss_rejected)
qed

section \<open>Properties of the daemon\<close>

subsection \<open>The store over time\<close>

lemma later_version_refl: "later_version r r"
  by (simp add: later_version_def)

lemma later_version_trans: "later_version a b \<Longrightarrow> later_version b c \<Longrightarrow> later_version a c"
  by (auto simp: later_version_def)

lemma grows_to_refl: "grows_to xs xs"
  by (simp add: grows_to_def later_version_refl)

lemma grows_to_trans: "grows_to xs ys \<Longrightarrow> grows_to ys zs \<Longrightarrow> grows_to xs zs"
  unfolding grows_to_def using later_version_trans by (meson le_trans less_le_trans)

lemma later_version_expire: "later_version r (expire cfg now r)"
  by (simp add: later_version_def expire_def)

lemma grows_to_expire: "grows_to xs (map (expire cfg now) xs)"
  by (simp add: grows_to_def later_version_expire)

lemma grows_to_append: "grows_to xs (xs @ ys)"
  by (simp add: grows_to_def nth_append later_version_refl)

lemma length_set_status: "length (set_status rid new xs) = length xs"
  by (induction xs) simp_all

lemma set_status_nth:
  assumes "find (\<lambda>r. request_id r = rid) xs = Some r" and "status r = Pending"
    and "new = Approved \<or> new = Dismissed" and "i < length xs"
  shows "later_version (xs ! i) (set_status rid new xs ! i)"
  using assms
proof (induction xs arbitrary: i)
  case Nil
  then show ?case by simp
next
  case (Cons x xs)
  show ?case
  proof (cases "request_id x = rid")
    case True
    with Cons.prems have "x = r" by simp
    with True Cons.prems show ?thesis
      by (cases i) (auto simp: later_version_def)
  next
    case False
    with Cons.prems have f: "find (\<lambda>r. request_id r = rid) xs = Some r" by simp
    show ?thesis
    proof (cases i)
      case 0
      with False show ?thesis by (simp add: later_version_refl)
    next
      case (Suc j)
      with Cons.prems have "j < length xs" by simp
      from Cons.IH [OF f Cons.prems(2) Cons.prems(3) this] False Suc show ?thesis by simp
    qed
  qed
qed

lemma grows_to_set_status:
  assumes "find (\<lambda>r. request_id r = rid) xs = Some r" and "status r = Pending"
    and "new = Approved \<or> new = Dismissed"
  shows "grows_to xs (set_status rid new xs)"
  using set_status_nth [OF assms] by (simp add: grows_to_def length_set_status)

lemma grows_to_apply_op: "grows_to (requests s) (requests (apply_op cfg op s))"
proof (cases op)
  case (Admit now ip)
  then show ?thesis
    by (auto simp: admit_def grows_to_refl grows_to_append)
next
  case (List_pending now)
  then show ?thesis by (simp add: list_pending_def Let_def grows_to_expire)
next
  case (Get rid)
  then show ?thesis by (simp add: grows_to_refl)
next
  case (Transition rid new)
  then show ?thesis
    by (auto simp: transition_def get_def grows_to_refl grows_to_set_status
        split: option.splits sum.splits if_splits)
qed

lemma grows_to_run_ops: "grows_to (requests s) (requests (run_ops cfg ops s))"
proof (induction ops arbitrary: s)
  case Nil
  then show ?case by (simp add: grows_to_refl)
next
  case (Cons op ops)
  from grows_to_trans [OF grows_to_apply_op Cons.IH] show ?case by simp
qed

lemma grows_to_find:
  assumes "grows_to xs ys" and "find (\<lambda>r. request_id r = rid) xs = Some r"
  shows "\<exists>r'. find (\<lambda>r. request_id r = rid) ys = Some r' \<and> later_version r r'"
proof -
  from assms(2) obtain i where i: "i < length xs" "request_id (xs ! i) = rid" "r = xs ! i"
    "\<forall>j<i. request_id (xs ! j) \<noteq> rid"
    by (auto simp: find_Some_iff)
  from assms(1) i(1) have lv: "later_version (xs ! i) (ys ! i)" and len: "i < length ys"
    by (auto simp: grows_to_def)
  have before: "\<forall>j<i. request_id (ys ! j) \<noteq> rid"
  proof (intro allI impI)
    fix j assume "j < i"
    with i(1) assms(1) have "later_version (xs ! j) (ys ! j)" by (simp add: grows_to_def)
    with i(4) \<open>j < i\<close> show "request_id (ys ! j) \<noteq> rid" by (simp add: later_version_def)
  qed
  from lv i(2) have "request_id (ys ! i) = rid" by (simp add: later_version_def)
  with len before have "find (\<lambda>r. request_id r = rid) ys = Some (ys ! i)"
    by (auto simp: find_Some_iff)
  with lv i(3) show ?thesis by simp
qed

lemma find_map_expire:
  "find (\<lambda>r. request_id r = rid) (map (expire cfg now) xs)
     = map_option (expire cfg now) (find (\<lambda>r. request_id r = rid) xs)"
  by (induction xs) (simp_all add: expire_def)

lemma get_after_list_pending:
  "get s rid = Inr r \<Longrightarrow> get (snd (list_pending cfg now s)) rid = Inr (expire cfg now r)"
  by (simp add: get_def list_pending_def Let_def find_map_expire split: option.splits)

lemma filter_pending_expire:
  "filter (\<lambda>r. status r = Pending) (map (expire cfg now) xs)
     = filter (\<lambda>r. status r = Pending \<and> \<not> overdue cfg now r) xs"
  by (induction xs) (simp_all add: expire_def)

lemma list_pending_fst:
  "fst (list_pending cfg now s)
     = sort_key created_at (filter (\<lambda>r. status r = Pending \<and> \<not> overdue cfg now r) (requests s))"
  by (simp add: list_pending_def Let_def filter_pending_expire)

lemma list_pending_snd:
  "snd (list_pending cfg now s) = s\<lparr>requests := map (expire cfg now) (requests s)\<rparr>"
  by (simp add: list_pending_def Let_def)

subsection \<open>dismiss\<close>

lemma find_set_status_same:
  "find (\<lambda>r. request_id r = rid) xs = Some r \<Longrightarrow>
     find (\<lambda>r. request_id r = rid) (set_status rid new xs) = Some (r\<lparr>status := new\<rparr>)"
  by (induction xs) (auto split: if_splits)

lemma find_set_status_other:
  "rid' \<noteq> rid \<Longrightarrow>
     find (\<lambda>r. request_id r = rid') (set_status rid new xs) = find (\<lambda>r. request_id r = rid') xs"
  by (induction xs) auto

lemma transition_pending:
  assumes "get s rid = Inr r" and "status r = Pending"
  shows "transition s rid Dismissed = Inr (s\<lparr>requests := set_status rid Dismissed (requests s)\<rparr>)"
  using assms by (simp add: transition_def)

lemma transition_not_pending:
  assumes "get s rid = Inr r" and "status r \<noteq> Pending"
  shows "transition s rid new = Inl InvalidTransition"
  using assms by (simp add: transition_def)

lemma transition_unknown:
  assumes "get s rid = Inl e"
  shows "transition s rid new = Inl e"
  using assms by (simp add: transition_def)

lemma get_cases: "get s rid = Inl NotFound \<or> (\<exists>r. get s rid = Inr r \<and> request_id r = rid)"
  by (auto simp: get_def find_Some_iff split: option.splits)

lemma service_dismiss_pending:
  assumes "get (store svc) rid = Inr r" and "status r = Pending"
  shows "service_dismiss svc rid
    = (True, svc\<lparr>store := (store svc)\<lparr>requests := set_status rid Dismissed (requests (store svc))\<rparr>\<rparr>)"
  by (simp add: service_dismiss_def transition_pending [OF assms])

lemma service_dismiss_resolved:
  assumes "get (store svc) rid = Inr r" and "status r \<noteq> Pending"
  shows "service_dismiss svc rid = (True, svc)"
  by (simp add: service_dismiss_def transition_not_pending [OF assms])

lemma service_dismiss_unknown:
  assumes "get (store svc) rid = Inl e"
  shows "service_dismiss svc rid = (True, svc)"
  by (simp add: service_dismiss_def transition_unknown [OF assms])

lemma get_after_dismiss_pending:
  assumes "get (store svc) rid = Inr r" and "status r = Pending"
  shows "get (store (snd (service_dismiss svc rid))) rid = Inr (r\<lparr>status := Dismissed\<rparr>)"
proof -
  from assms(1) have "find (\<lambda>r. request_id r = rid) (requests (store svc)) = Some r"
    by (simp add: get_def split: option.splits)
  from find_set_status_same [OF this] show ?thesis
    by (simp add: service_dismiss_pending [OF assms] get_def)
qed

lemma service_dismiss_twice:
  "service_dismiss (snd (service_dismiss svc rid)) rid = (True, snd (service_dismiss svc rid))"
proof -
  from get_cases [of "store svc" rid] consider
      (unknown) "get (store svc) rid = Inl NotFound"
    | (pending) r where "get (store svc) rid = Inr r" "status r = Pending"
    | (resolved) r where "get (store svc) rid = Inr r" "status r \<noteq> Pending"
    by blast
  then show ?thesis
  proof cases
    case unknown
    then show ?thesis by (simp add: service_dismiss_unknown)
  next
    case pending
    have "get (store (snd (service_dismiss svc rid))) rid = Inr (r\<lparr>status := Dismissed\<rparr>)"
      by (rule get_after_dismiss_pending [OF pending])
    then show ?thesis by (intro service_dismiss_resolved) auto
  next
    case resolved
    then show ?thesis by (simp add: service_dismiss_resolved)
  qed
qed

lemma service_dismiss_others:
  assumes "rid' \<noteq> rid"
  shows "get (store (snd (service_dismiss svc rid))) rid' = get (store svc) rid'"
  using assms
  by (auto simp: service_dismiss_def transition_def get_def find_set_status_other
      split: sum.splits option.splits)

subsection \<open>grant\<close>

lemma grant_trusted: "is_trusted L i \<Longrightarrow> grant L i now durable = Inr (False, L)"
  by (simp add: grant_def)

lemma grant_makes_trusted: "grant L i t d = Inr (n, L1) \<Longrightarrow> is_trusted L1 i"
  by (auto simp: grant_def is_trusted_def split: if_splits)

lemma records_of_untrusted: "\<not> is_trusted L i \<Longrightarrow> records_of L i = []"
  by (auto simp: is_trusted_def records_of_def filter_empty_conv)

lemma records_of_one:
  "distinct (map client_id L) \<Longrightarrow> is_trusted L i \<Longrightarrow> length (records_of L i) = 1"
proof (induction L)
  case Nil
  then show ?case by (simp add: is_trusted_def)
next
  case (Cons c L)
  show ?case
  proof (cases "client_id c = i")
    case True
    with Cons.prems have "\<not> is_trusted L i" by (auto simp: is_trusted_def)
    with True show ?thesis using records_of_untrusted [of L i] by (simp add: records_of_def)
  next
    case False
    with Cons.prems have "is_trusted L i" "distinct (map client_id L)"
      by (auto simp: is_trusted_def)
    with Cons.IH False show ?thesis by (simp add: records_of_def)
  qed
qed

lemma grant_distinct:
  "distinct (map client_id L) \<Longrightarrow> grant L i t d = Inr (n, L1) \<Longrightarrow> distinct (map client_id L1)"
  by (auto simp: grant_def is_trusted_def split: if_splits)

lemma grant_records:
  "grant L i t d = Inr (n, L1) \<Longrightarrow>
     records_of L1 i = (if is_trusted L i then records_of L i else [\<lparr>client_id = i, granted_at = t\<rparr>])"
proof (cases "is_trusted L i")
  case True
  assume "grant L i t d = Inr (n, L1)"
  with True show ?thesis by (simp add: grant_def)
next
  case False
  assume "grant L i t d = Inr (n, L1)"
  with False have "L1 = L @ [\<lparr>client_id = i, granted_at = t\<rparr>]"
    by (simp add: grant_def split: if_splits)
  with False records_of_untrusted [OF False] show ?thesis
    by (simp add: records_of_def)
qed

subsection \<open>The claims about the daemon\<close>

text \<open>
  Claim C2. Take a request the store holds under an id, and any sequence of RequestStore
  operations (admit, list_pending, get, transition, at any times and with any arguments).
  Afterwards the store still holds that request under that id, and its status is what it
  was, or it was \<open>pending\<close> and is now \<open>approved\<close>, \<open>dismissed\<close> or \<open>expired\<close>. So a
  status other than \<open>pending\<close> never changes again, and never becomes \<open>pending\<close>. In
  particular a pending request that a \<open>list_pending\<close> finds overdue is \<open>expired\<close> after
  that read and after everything that follows it.
\<close>

theorem status_leaves_pending_for_good:
  assumes "get s rid = Inr r"
  shows "(\<exists>r'. get (run_ops cfg ops s) rid = Inr r'
           \<and> request_id r' = rid \<and> client_ip r' = client_ip r \<and> created_at r' = created_at r
           \<and> (status r' = status r
               \<or> (status r = Pending \<and> status r' \<in> {Approved, Dismissed, Expired}))
           \<and> (status r \<noteq> Pending \<longrightarrow> status r' = status r))
       \<and> (status r = Pending \<and> overdue cfg now r \<longrightarrow>
            (\<exists>r'. get (run_ops cfg (List_pending now # ops) s) rid = Inr r'
               \<and> status r' = Expired))"
proof -
  from assms have f: "find (\<lambda>r. request_id r = rid) (requests s) = Some r"
    by (simp add: get_def split: option.splits)
  then have rid: "request_id r = rid" by (auto simp: find_Some_iff)
  have a: "\<exists>r'. get (run_ops cfg ops s) rid = Inr r'
           \<and> request_id r' = rid \<and> client_ip r' = client_ip r \<and> created_at r' = created_at r
           \<and> (status r' = status r
               \<or> (status r = Pending \<and> status r' \<in> {Approved, Dismissed, Expired}))
           \<and> (status r \<noteq> Pending \<longrightarrow> status r' = status r)"
    using grows_to_find [OF grows_to_run_ops f, of cfg ops] rid
    by (auto simp: get_def later_version_def)
  have b: "\<exists>r'. get (run_ops cfg (List_pending now # ops) s) rid = Inr r' \<and> status r' = Expired"
    if p: "status r = Pending \<and> overdue cfg now r"
  proof -
    let ?s1 = "snd (list_pending cfg now s)"
    have "get ?s1 rid = Inr (expire cfg now r)"
      by (rule get_after_list_pending [OF assms])
    then have f1: "find (\<lambda>r. request_id r = rid) (requests ?s1) = Some (expire cfg now r)"
      by (simp add: get_def split: option.splits)
    from p have e: "status (expire cfg now r) = Expired" by (simp add: expire_def)
    from grows_to_find [OF grows_to_run_ops f1, of cfg ops] e show ?thesis
      by (auto simp: get_def later_version_def)
  qed
  from a b show ?thesis by blast
qed

text \<open>The theorem in the example store: the approved request 3 stays approved through a
  dismissal, a read long after its window and an approval; the pending request 0, overdue
  at time 20, is expired by the read, and approving or dismissing it afterwards changes
  nothing.\<close>

theorem status_leaves_pending_for_good_witness:
  "(\<exists>r'. get (run_ops example_config
             [Transition 3 Dismissed, List_pending 100, Transition 3 Approved, Admit 101 None]
             example_store) 3 = Inr r'
        \<and> client_ip r' = Some ''10.0.0.7'' \<and> created_at r' = 14 \<and> status r' = Approved)
   \<and> (\<exists>r'. get (run_ops example_config
             [List_pending 20, Transition 0 Approved, Transition 0 Dismissed]
             example_store) 0 = Inr r'
        \<and> status r' = Expired)"
proof -
  have h3: "get example_store 3
      = Inr \<lparr>request_id = 3, client_ip = Some ''10.0.0.7'', status = Approved, created_at = 14\<rparr>"
    by (simp add: get_def example_store_def)
  have h0: "get example_store 0
      = Inr \<lparr>request_id = 0, client_ip = Some ''10.0.0.5'', status = Pending, created_at = 5\<rparr>"
    by (simp add: get_def example_store_def)
  have a: "\<exists>r'. get (run_ops example_config
             [Transition 3 Dismissed, List_pending 100, Transition 3 Approved, Admit 101 None]
             example_store) 3 = Inr r'
        \<and> client_ip r' = Some ''10.0.0.7'' \<and> created_at r' = 14 \<and> status r' = Approved"
    using status_leaves_pending_for_good [OF h3, of example_config
        "[Transition 3 Dismissed, List_pending 100, Transition 3 Approved, Admit 101 None]"]
    by auto
  have b: "\<exists>r'. get (run_ops example_config
             [List_pending 20, Transition 0 Approved, Transition 0 Dismissed]
             example_store) 0 = Inr r'
        \<and> status r' = Expired"
    using status_leaves_pending_for_good [OF h0, of example_config
        "[Transition 0 Approved, Transition 0 Dismissed]" 20]
    by (simp add: overdue_def example_config_def)
  from a b show ?thesis by blast
qed

text \<open>
  Claim C3. \<open>dismiss\<close> of the service answers \<open>ok = true\<close> for every id. A pending
  request is \<open>dismissed\<close> afterwards; a request already resolved and an unknown id leave
  the service as it was. A second call for the same id answers \<open>ok = true\<close> again and
  changes nothing, so at most one change of state is ever made. The ledger and the
  requests under other ids are not touched.
\<close>

theorem dismiss_idempotent:
  "fst (service_dismiss svc rid) = True
   \<and> service_dismiss (snd (service_dismiss svc rid)) rid = (True, snd (service_dismiss svc rid))
   \<and> ledger (snd (service_dismiss svc rid)) = ledger svc
   \<and> (\<forall>r. get (store svc) rid = Inr r \<and> status r = Pending \<longrightarrow>
         get (store (snd (service_dismiss svc rid))) rid = Inr (r\<lparr>status := Dismissed\<rparr>))
   \<and> (\<forall>r. get (store svc) rid = Inr r \<and> status r \<noteq> Pending \<longrightarrow>
         snd (service_dismiss svc rid) = svc)
   \<and> (\<forall>e. get (store svc) rid = Inl e \<longrightarrow> snd (service_dismiss svc rid) = svc)
   \<and> (\<forall>rid'. rid' \<noteq> rid \<longrightarrow>
         get (store (snd (service_dismiss svc rid))) rid' = get (store svc) rid')"
proof -
  have a: "fst (service_dismiss svc rid) = True"
    by (simp add: service_dismiss_def split: sum.splits)
  have b: "ledger (snd (service_dismiss svc rid)) = ledger svc"
    by (simp add: service_dismiss_def split: sum.splits)
  from a b service_dismiss_twice get_after_dismiss_pending service_dismiss_others
  show ?thesis
    by (simp add: service_dismiss_resolved service_dismiss_unknown)
qed

text \<open>The theorem in the example service: the pending request 1 is dismissed by the
  first call and left so by the second; the approved request 3 and the unknown id 9 leave
  the service as it was.\<close>

theorem dismiss_idempotent_witness:
  "service_dismiss example_service 1
     = (True, example_service\<lparr>store := example_store\<lparr>requests :=
         [\<lparr>request_id = 0, client_ip = Some ''10.0.0.5'', status = Pending, created_at = 5\<rparr>,
          \<lparr>request_id = 1, client_ip = None, status = Dismissed, created_at = 15\<rparr>,
          \<lparr>request_id = 2, client_ip = Some ''10.0.0.6'', status = Pending, created_at = 12\<rparr>,
          \<lparr>request_id = 3, client_ip = Some ''10.0.0.7'', status = Approved, created_at = 14\<rparr>]\<rparr>\<rparr>)
   \<and> service_dismiss (snd (service_dismiss example_service 1)) 1
     = (True, snd (service_dismiss example_service 1))
   \<and> get (store (snd (service_dismiss example_service 1))) 1
     = Inr \<lparr>request_id = 1, client_ip = None, status = Dismissed, created_at = 15\<rparr>
   \<and> snd (service_dismiss example_service 3) = example_service
   \<and> snd (service_dismiss example_service 9) = example_service"
proof -
  have h1: "get (store example_service) 1
      = Inr \<lparr>request_id = 1, client_ip = None, status = Pending, created_at = 15\<rparr>"
    by (simp add: get_def example_store_def example_service_def)
  have h3: "get (store example_service) 3
      = Inr \<lparr>request_id = 3, client_ip = Some ''10.0.0.7'', status = Approved, created_at = 14\<rparr>"
    by (simp add: get_def example_store_def example_service_def)
  have h9: "get (store example_service) 9 = Inl NotFound"
    by (simp add: get_def example_store_def example_service_def)
  have a: "service_dismiss example_service 1
     = (True, example_service\<lparr>store := example_store\<lparr>requests :=
         [\<lparr>request_id = 0, client_ip = Some ''10.0.0.5'', status = Pending, created_at = 5\<rparr>,
          \<lparr>request_id = 1, client_ip = None, status = Dismissed, created_at = 15\<rparr>,
          \<lparr>request_id = 2, client_ip = Some ''10.0.0.6'', status = Pending, created_at = 12\<rparr>,
          \<lparr>request_id = 3, client_ip = Some ''10.0.0.7'', status = Approved, created_at = 14\<rparr>]\<rparr>\<rparr>)"
    by (simp add: service_dismiss_def transition_def get_def example_store_def example_service_def)
  from a h1 h3 h9 dismiss_idempotent [of example_service 1]
    dismiss_idempotent [of example_service 3] dismiss_idempotent [of example_service 9]
  show ?thesis by simp
qed

text \<open>
  Claim C4. In a ledger with at most one record per identity (which every grant keeps),
  \<open>grant\<close> for an identity already trusted returns \<open>newly_granted = false\<close> without an
  error, even when a write would fail, and returns the ledger as it was: there is exactly
  one record of the identity, with the time of its first grant. Granting twice in a row
  therefore leaves one record, the one the first grant wrote or found.
\<close>

theorem grant_idempotent:
  assumes "distinct (map client_id L)"
  shows "(is_trusted L i \<longrightarrow>
            grant L i now durable = Inr (False, L) \<and> length (records_of L i) = 1)
       \<and> (grant L i t1 d1 = Inr (newly, L1) \<longrightarrow>
            grant L1 i t2 d2 = Inr (False, L1)
          \<and> length (records_of L1 i) = 1
          \<and> records_of L1 i
              = (if is_trusted L i then records_of L i else [\<lparr>client_id = i, granted_at = t1\<rparr>])
          \<and> newly = (\<not> is_trusted L i)
          \<and> distinct (map client_id L1))"
proof (intro conjI impI)
  assume "is_trusted L i"
  then show "grant L i now durable = Inr (False, L)" by (rule grant_trusted)
next
  assume "is_trusted L i"
  with assms show "length (records_of L i) = 1" by (rule records_of_one)
next
  assume g: "grant L i t1 d1 = Inr (newly, L1)"
  from grant_makes_trusted [OF g] show "grant L1 i t2 d2 = Inr (False, L1)" by (rule grant_trusted)
  from grant_distinct [OF assms g] show "distinct (map client_id L1)" .
  from records_of_one [OF grant_distinct [OF assms g] grant_makes_trusted [OF g]]
  show "length (records_of L1 i) = 1" .
  from g show "records_of L1 i
      = (if is_trusted L i then records_of L i else [\<lparr>client_id = i, granted_at = t1\<rparr>])"
    by (rule grant_records)
  from g show "newly = (\<not> is_trusted L i)"
    by (auto simp: grant_def split: if_splits)
qed

text \<open>The theorem for one identity, granted at time 7 in the empty ledger and again at
  time 9, with a write that works and with one that would fail.\<close>

theorem grant_idempotent_witness:
  "grant [] ''studio-a'' 7 True = Inr (True, [\<lparr>client_id = ''studio-a'', granted_at = 7\<rparr>])
   \<and> grant [\<lparr>client_id = ''studio-a'', granted_at = 7\<rparr>] ''studio-a'' 9 True
     = Inr (False, [\<lparr>client_id = ''studio-a'', granted_at = 7\<rparr>])
   \<and> grant [\<lparr>client_id = ''studio-a'', granted_at = 7\<rparr>] ''studio-a'' 9 False
     = Inr (False, [\<lparr>client_id = ''studio-a'', granted_at = 7\<rparr>])
   \<and> length (records_of [\<lparr>client_id = ''studio-a'', granted_at = 7\<rparr>] ''studio-a'') = 1
   \<and> records_of [\<lparr>client_id = ''studio-a'', granted_at = 7\<rparr>] ''studio-a''
     = [\<lparr>client_id = ''studio-a'', granted_at = 7\<rparr>]"
proof -
  have d0: "distinct (map client_id ([] :: trusted_client list))" by simp
  have d1: "distinct (map client_id [\<lparr>client_id = ''studio-a'', granted_at = 7\<rparr>])" by simp
  have t0: "\<not> is_trusted [] ''studio-a''"
    by (simp add: is_trusted_def)
  have t1: "is_trusted [\<lparr>client_id = ''studio-a'', granted_at = 7\<rparr>] ''studio-a''"
    by (simp add: is_trusted_def)
  have g: "grant [] ''studio-a'' 7 True = Inr (True, [\<lparr>client_id = ''studio-a'', granted_at = 7\<rparr>])"
    by (simp add: grant_def is_trusted_def)
  have first: "grant [\<lparr>client_id = ''studio-a'', granted_at = 7\<rparr>] ''studio-a'' 9 True
       = Inr (False, [\<lparr>client_id = ''studio-a'', granted_at = 7\<rparr>])
     \<and> length (records_of [\<lparr>client_id = ''studio-a'', granted_at = 7\<rparr>] ''studio-a'') = 1"
    using t1 grant_idempotent [OF d1, where i = "''studio-a''" and now = 9 and durable = True
      and ?t1.0 = 9 and ?d1.0 = True and newly = False
      and ?L1.0 = "[\<lparr>client_id = ''studio-a'', granted_at = 7\<rparr>]" and ?t2.0 = 9 and ?d2.0 = False]
    by simp
  have second: "grant [\<lparr>client_id = ''studio-a'', granted_at = 7\<rparr>] ''studio-a'' 9 False
       = Inr (False, [\<lparr>client_id = ''studio-a'', granted_at = 7\<rparr>])
     \<and> records_of [\<lparr>client_id = ''studio-a'', granted_at = 7\<rparr>] ''studio-a''
       = [\<lparr>client_id = ''studio-a'', granted_at = 7\<rparr>]"
    using g t0 grant_idempotent [OF d0, where i = "''studio-a''" and now = 0 and durable = True
      and ?t1.0 = 7 and ?d1.0 = True and newly = True
      and ?L1.0 = "[\<lparr>client_id = ''studio-a'', granted_at = 7\<rparr>]" and ?t2.0 = 9 and ?d2.0 = False]
    by simp
  from g first second show ?thesis by blast
qed

text \<open>
  Claim C5. \<open>list_pending\<close> returns exactly the requests that are pending and not
  overdue, ordered by \<open>created_at\<close>, oldest first, so never one that is approved,
  dismissed or expired. The store it returns differs from the one it was given only in
  that every pending request that is overdue has become \<open>expired\<close>. \<open>list_requests\<close>
  of the service returns id, address and status of the same requests, every status
  \<open>pending\<close>, and changes nothing but the store in that way.
\<close>

theorem list_pending_only_pending_oldest_first:
  "fst (list_pending cfg now s)
     = sort_key created_at
         (filter (\<lambda>r. status r = Pending \<and> \<not> overdue cfg now r) (requests s))
   \<and> (\<forall>r \<in> set (fst (list_pending cfg now s)).
         status r = Pending \<and> \<not> overdue cfg now r \<and> r \<in> set (requests s))
   \<and> sorted (map created_at (fst (list_pending cfg now s)))
   \<and> snd (list_pending cfg now s) = s\<lparr>requests := map (expire cfg now) (requests s)\<rparr>
   \<and> (\<forall>r. expire cfg now r
         = (if status r = Pending \<and> overdue cfg now r then r\<lparr>status := Expired\<rparr> else r))
   \<and> fst (list_requests cfg now svc)
       = map (\<lambda>r. (request_id r, client_ip r, status r)) (fst (list_pending cfg now (store svc)))
   \<and> (\<forall>v \<in> set (fst (list_requests cfg now svc)). snd (snd v) = Pending)
   \<and> snd (list_requests cfg now svc) = svc\<lparr>store := snd (list_pending cfg now (store svc))\<rparr>"
proof -
  have a: "\<forall>r \<in> set (fst (list_pending cfg now s)).
         status r = Pending \<and> \<not> overdue cfg now r \<and> r \<in> set (requests s)"
    by (simp add: list_pending_fst)
  have b: "sorted (map created_at (fst (list_pending cfg now s)))"
    by (simp add: list_pending_fst)
  have c: "\<forall>r. expire cfg now r
         = (if status r = Pending \<and> overdue cfg now r then r\<lparr>status := Expired\<rparr> else r)"
    by (simp add: expire_def)
  have d: "fst (list_requests cfg now svc)
       = map (\<lambda>r. (request_id r, client_ip r, status r)) (fst (list_pending cfg now (store svc)))"
    by (simp add: list_requests_def split: prod.splits)
  have e: "\<forall>v \<in> set (fst (list_requests cfg now svc)). snd (snd v) = Pending"
    unfolding d by (auto simp: list_pending_fst)
  have f: "snd (list_requests cfg now svc) = svc\<lparr>store := snd (list_pending cfg now (store svc))\<rparr>"
    by (simp add: list_requests_def split: prod.splits)
  from a b c d e f list_pending_fst [of cfg now s] list_pending_snd [of cfg now s]
  show ?thesis by blast
qed

text \<open>The theorem in the example store at time 20, with a window of 10: request 0 is
  overdue and expires, request 3 is approved, and the requests 2 and 1 are returned in the
  order of their creation times 12 and 15.\<close>

theorem list_pending_only_pending_oldest_first_witness:
  "fst (list_pending example_config 20 example_store)
     = [\<lparr>request_id = 2, client_ip = Some ''10.0.0.6'', status = Pending, created_at = 12\<rparr>,
        \<lparr>request_id = 1, client_ip = None, status = Pending, created_at = 15\<rparr>]
   \<and> sorted (map created_at (fst (list_pending example_config 20 example_store)))
   \<and> requests (snd (list_pending example_config 20 example_store))
     = [\<lparr>request_id = 0, client_ip = Some ''10.0.0.5'', status = Expired, created_at = 5\<rparr>,
        \<lparr>request_id = 1, client_ip = None, status = Pending, created_at = 15\<rparr>,
        \<lparr>request_id = 2, client_ip = Some ''10.0.0.6'', status = Pending, created_at = 12\<rparr>,
        \<lparr>request_id = 3, client_ip = Some ''10.0.0.7'', status = Approved, created_at = 14\<rparr>]
   \<and> fst (list_requests example_config 20 example_service)
     = [(2, Some ''10.0.0.6'', Pending), (1, None, Pending)]"
  using list_pending_only_pending_oldest_first [of example_config 20 example_store example_service]
  by (simp add: example_config_def example_store_def example_service_def expire_def overdue_def)

subsection \<open>Concurrent calls of approve\<close>




lemma is_trusted_append: "is_trusted L i \<Longrightarrow> is_trusted (L @ M) i"
  by (simp add: is_trusted_def)

lemma get_pending_self:
  "status r = Pending \<Longrightarrow> r\<lparr>status := Pending\<rparr> = r"
  by simp











end
